theory Spec2Isabelle
  imports Main "HOL-Library.Multiset" "HOL-Library.AList"
begin

section \<open>Preview resources: naming, cloning and route composition\<close>

text \<open>
  A shallow embedding of the \<^verbatim>\<open>preview create\<close> command: the naming codec of
  \<^verbatim>\<open>create-preview-sample/main.go\<close> and the four stages of the create command
  (\<^verbatim>\<open>createService\<close>, \<^verbatim>\<open>createDeploy\<close>, \<^verbatim>\<open>createSidecarVirtualService\<close>,
  \<^verbatim>\<open>createGatewayVirtualService\<close>). Go strings are byte strings, modelled as
  \<^typ>\<open>string\<close>. The Kubernetes and Istio registries, the flag library and the
  standard library's sort are collaborators outside the repository; each is modelled
  next to the code that calls it, and the text there says how.
\<close>

subsection \<open>Failures\<close>

text \<open>
  A Go function of the program ends in one of three ways: it returns a value, it returns
  an \<^verbatim>\<open>error\<close>, or a run-time panic aborts the process. The last two are values of
  \<open>failure\<close>.
\<close>

datatype error =
    ConfigError string
  | ApiError string
  | AlreadyExists string
  | NotFoundSelector string
  | FailedCreateVirtualService error
  | MarshalError string
  | RequiredFlagsNotSet "string list"

datatype panic = NilPointerDereference | NilMapAssignment | IndexOutOfRange

datatype failure = Returned error | Panicked panic

subsection \<open>Naming codec\<close>

definition previewPrefixName :: string where
  "previewPrefixName = ''pr''"

text \<open>\<^verbatim>\<open>strings.HasPrefix(s, prefix)\<close>: \<^verbatim>\<open>len(s) >= len(prefix) && s[:len(prefix)] == prefix\<close>.\<close>

definition HasPrefix :: "string \<Rightarrow> string \<Rightarrow> bool" where
  "HasPrefix s p = (length p \<le> length s \<and> take (length p) s = p)"

text \<open>\<^verbatim>\<open>fmt.Sprintf("%s%s-%s", previewPrefixName, version, origin)\<close>.\<close>

definition previewName :: "string \<Rightarrow> string \<Rightarrow> string" where
  "previewName origin version = previewPrefixName @ version @ ''-'' @ origin"

text \<open>
  \<^verbatim>\<open>strings.Index(s, sep)\<close>: the position of the first occurrence of \<open>sep\<close>, \<open>None\<close> for
  Go's \<open>-1\<close>.
\<close>

fun Index :: "string \<Rightarrow> string \<Rightarrow> nat option" where
  "Index [] sep = (if sep = [] then Some 0 else None)"
| "Index (c # cs) sep =
     (if HasPrefix (c # cs) sep then Some 0 else map_option Suc (Index cs sep))"

text \<open>
  \<^verbatim>\<open>strings.SplitN(s, sep, n)\<close> for a non-empty separator and \<open>n > 0\<close>, the way the
  program calls it: the library clamps \<open>n\<close> to \<open>len(s) + 1\<close>, cuts at most \<open>n - 1\<close>
  times at the first occurrence of \<open>sep\<close>, and the rest is the last element.
\<close>

fun splitLoop :: "nat \<Rightarrow> string \<Rightarrow> string \<Rightarrow> string list" where
  "splitLoop 0 s sep = [s]"
| "splitLoop (Suc k) s sep =
     (case Index s sep of
        None \<Rightarrow> [s]
      | Some m \<Rightarrow> take m s # splitLoop k (drop (m + length sep) s) sep)"

definition SplitN :: "string \<Rightarrow> string \<Rightarrow> nat \<Rightarrow> string list" where
  "SplitN s sep n = splitLoop (min n (length s + 1) - 1) s sep"

text \<open>
  \<^verbatim>\<open>getVersionFromPreview\<close>. The read \<^verbatim>\<open>sp[0]\<close> panics on an empty slice, so that case is
  a branch of the model.
\<close>

definition getVersionFromPreview :: "string \<Rightarrow> panic + string" where
  "getVersionFromPreview s =
     (if \<not> HasPrefix s previewPrefixName then Inr s
      else (case SplitN (drop (length previewPrefixName) s) ''-'' 2 of
              [] \<Rightarrow> Inl IndexOutOfRange
            | v # _ \<Rightarrow> Inr v))"

definition previewVirtualServiceName :: "string \<Rightarrow> string" where
  "previewVirtualServiceName originSvc = previewPrefixName @ originSvc @ ''-virtual-service''"

definition previewGatewayVirtualServiceName :: "string \<Rightarrow> string \<Rightarrow> string" where
  "previewGatewayVirtualServiceName originSvc version =
     previewName originSvc version @ ''-gateway-virtual-service''"


text \<open>\<^verbatim>\<open>strings.Contains(s, substr)\<close>: \<^verbatim>\<open>Index(s, substr) >= 0\<close>.\<close>

definition Contains :: "string \<Rightarrow> string \<Rightarrow> bool" where
  "Contains s substr = (Index s substr \<noteq> None)"

subsection \<open>Go maps\<close>

text \<open>
  A \<^verbatim>\<open>map[string]string\<close>: \<open>None\<close> is the nil map, \<open>Some kvs\<close> holds the entries, keys
  distinct, in the order a \<^verbatim>\<open>range\<close> statement of this run visits them (Go leaves that
  order open). Reading a nil map finds nothing, ranging over it visits nothing, and
  assigning into it panics.
\<close>

type_synonym gomap = "(string \<times> string) list option"

definition mapIndex :: "gomap \<Rightarrow> string \<Rightarrow> string option" where
  "mapIndex m k = (case m of None \<Rightarrow> None | Some kvs \<Rightarrow> map_of kvs k)"

definition mapAssign :: "gomap \<Rightarrow> string \<Rightarrow> string \<Rightarrow> panic + gomap" where
  "mapAssign m k v =
     (case m of None \<Rightarrow> Inl NilMapAssignment | Some kvs \<Rightarrow> Inr (Some (AList.update k v kvs)))"

definition mapRange :: "gomap \<Rightarrow> (string \<times> string) list" where
  "mapRange m = (case m of None \<Rightarrow> [] | Some kvs \<Rightarrow> kvs)"

subsection \<open>Resources\<close>

text \<open>
  Of each Kubernetes object the fields the program reads or writes; \<^verbatim>\<open>DeepCopy\<close> copies
  every other field unchanged, and copies a nil map or pointer as nil. A \<^verbatim>\<open>var\<close>
  declaration without a value gives the zero value.
\<close>

record Service =
  svc_Name :: string
  svc_ResourceVersion :: string
  svc_Labels :: gomap
  svc_Selector :: gomap

definition zeroService :: Service where
  "zeroService =
     \<lparr>svc_Name = [], svc_ResourceVersion = [], svc_Labels = None, svc_Selector = None\<rparr>"

text \<open>
  \<^verbatim>\<open>Spec.Selector\<close> of a Deployment is a pointer to a label selector: \<open>None\<close> is the nil
  pointer, \<open>Some m\<close> a selector whose \<^verbatim>\<open>MatchLabels\<close> is the map \<open>m\<close>.
\<close>

record Deployment =
  dep_Name :: string
  dep_ResourceVersion :: string
  dep_Selector :: "gomap option"
  dep_TemplateLabels :: gomap

definition zeroDeployment :: Deployment where
  "zeroDeployment =
     \<lparr>dep_Name = [], dep_ResourceVersion = [], dep_Selector = None, dep_TemplateLabels = None\<rparr>"

record deploySelector =
  sel_key :: string
  sel_value :: string

datatype StringMatch = StringMatch_Prefix string | StringMatch_Exact string

record HTTPMatchRequest =
  mr_Headers :: "(string \<times> StringMatch) list"

record HTTPRouteDestination =
  rd_HeadersRequestAdd :: "(string \<times> string) list"
  rd_DestinationHost :: string

record HTTPRoute =
  rt_Name :: string
  rt_Match :: "HTTPMatchRequest list"
  rt_Route :: "HTTPRouteDestination list"

record VirtualService =
  vs_Kind :: string
  vs_APIVersion :: string
  vs_Name :: string
  vs_Namespace :: string
  vs_ManagedFields :: "string list"
  vs_Hosts :: "string list"
  vs_Gateways :: "string list"
  vs_Http :: "HTTPRoute list"

subsection \<open>The cluster and the environment\<close>

text \<open>
  The remote state: the Services and Deployments of namespace \<^verbatim>\<open>default\<close> (the only one
  the program asks for) and the VirtualServices of all namespaces.
\<close>

record cluster =
  services :: "Service list"
  deployments :: "Deployment list"
  virtualServices :: "VirtualService list"

text \<open>
  What a run finds outside the program: the variable \<^verbatim>\<open>RUN_IN_CLUSTER\<close>, the outcome of
  each way to get a connection configuration and to build a client from it, the error
  (if any) with which the server or the transport refuses each kind of call for a reason
  the model of the registries below does not cover, and the error of \<^verbatim>\<open>json.Marshal\<close>.
  \<open>longSwaps\<close> stands for the part of \<^verbatim>\<open>sort.Slice\<close> that is not modelled (see there).
\<close>

record env =
  RUN_IN_CLUSTER :: string
  inClusterConfig :: "error option"
  buildConfigFromFlags :: "error option"
  k8sNewForConfig :: "error option"
  istioNewForConfig :: "error option"
  servicesListErr :: "error option"
  servicesCreateErr :: "error option"
  deploymentsListErr :: "error option"
  deploymentsCreateErr :: "error option"
  virtualServicesListErr :: "error option"
  virtualServicesCreateErr :: "error option"
  virtualServicesPatchErr :: "error option"
  marshalErr :: "error option"
  longSwaps :: "HTTPRoute list \<Rightarrow> (nat \<times> nat) list"

datatype Clientset = Clientset

text \<open>\<^verbatim>\<open>getRestConfig\<close>: the error it returns, \<open>None\<close> when it returns a configuration.\<close>

definition getRestConfig :: "env \<Rightarrow> error option" where
  "getRestConfig e =
     (if RUN_IN_CLUSTER e \<noteq> [] then inClusterConfig e else buildConfigFromFlags e)"

text \<open>
  \<^verbatim>\<open>newK8sClient\<close> and \<^verbatim>\<open>newIstioClient\<close> return a pair (client pointer, error), and the
  pointer is nil when the error is not.
\<close>

definition newK8sClient :: "env \<Rightarrow> Clientset option \<times> error option" where
  "newK8sClient e =
     (case getRestConfig e of
        Some err \<Rightarrow> (None, Some err)
      | None \<Rightarrow>
          (case k8sNewForConfig e of
             Some err \<Rightarrow> (None, Some err)
           | None \<Rightarrow> (Some Clientset, None)))"

definition newIstioClient :: "env \<Rightarrow> Clientset option \<times> error option" where
  "newIstioClient e =
     (case getRestConfig e of
        Some err \<Rightarrow> (None, Some err)
      | None \<Rightarrow>
          (case istioNewForConfig e of
             Some err \<Rightarrow> (None, Some err)
           | None \<Rightarrow> (Some Clientset, None)))"

subsection \<open>The registries\<close>

text \<open>
  The workload and routing registries are remote collaborators. Their model: a list call
  returns the stored objects; a create call fails with \<open>AlreadyExists\<close> when an object of
  that name is stored (in that namespace) and otherwise stores the object and returns it;
  the apply patch (with \<^verbatim>\<open>Force\<close>) of a document stores the document in place of the
  object of that name, or as a new object when there is none, and is refused when the
  document's own name or namespace is not the one of the request. Each call is refused
  with the environment's error when there is one.
\<close>

definition appNamespace :: string where
  "appNamespace = ''default''"

definition istioNamespace :: string where
  "istioNamespace = ''istio-system''"

definition previewHeader :: string where
  "previewHeader = ''X-PREVIEW''"

definition Services_List :: "env \<Rightarrow> cluster \<Rightarrow> error + Service list" where
  "Services_List e cl =
     (case servicesListErr e of Some err \<Rightarrow> Inl err | None \<Rightarrow> Inr (services cl))"

definition Services_Create :: "env \<Rightarrow> cluster \<Rightarrow> Service \<Rightarrow> (error + Service) \<times> cluster" where
  "Services_Create e cl svc =
     (case servicesCreateErr e of
        Some err \<Rightarrow> (Inl err, cl)
      | None \<Rightarrow>
          if svc_Name svc \<in> set (map svc_Name (services cl))
          then (Inl (AlreadyExists (svc_Name svc)), cl)
          else (Inr svc, cl\<lparr>services := services cl @ [svc]\<rparr>))"

definition Deployments_List :: "env \<Rightarrow> cluster \<Rightarrow> error + Deployment list" where
  "Deployments_List e cl =
     (case deploymentsListErr e of Some err \<Rightarrow> Inl err | None \<Rightarrow> Inr (deployments cl))"

definition Deployments_Create ::
  "env \<Rightarrow> cluster \<Rightarrow> Deployment \<Rightarrow> (error + Deployment) \<times> cluster" where
  "Deployments_Create e cl d =
     (case deploymentsCreateErr e of
        Some err \<Rightarrow> (Inl err, cl)
      | None \<Rightarrow>
          if dep_Name d \<in> set (map dep_Name (deployments cl))
          then (Inl (AlreadyExists (dep_Name d)), cl)
          else (Inr d, cl\<lparr>deployments := deployments cl @ [d]\<rparr>))"

definition VirtualServices_List :: "env \<Rightarrow> cluster \<Rightarrow> error + VirtualService list" where
  "VirtualServices_List e cl =
     (case virtualServicesListErr e of Some err \<Rightarrow> Inl err | None \<Rightarrow> Inr (virtualServices cl))"

definition sameObject :: "string \<Rightarrow> string \<Rightarrow> VirtualService \<Rightarrow> bool" where
  "sameObject ns name vs = (vs_Namespace vs = ns \<and> vs_Name vs = name)"

definition VirtualServices_Create ::
  "env \<Rightarrow> cluster \<Rightarrow> string \<Rightarrow> VirtualService \<Rightarrow> (error + VirtualService) \<times> cluster" where
  "VirtualServices_Create e cl ns vs =
     (case virtualServicesCreateErr e of
        Some err \<Rightarrow> (Inl err, cl)
      | None \<Rightarrow>
          if list_ex (sameObject ns (vs_Name vs)) (virtualServices cl)
          then (Inl (AlreadyExists (vs_Name vs)), cl)
          else (Inr vs, cl\<lparr>virtualServices := virtualServices cl @ [vs]\<rparr>))"

definition VirtualServices_Patch ::
  "env \<Rightarrow> cluster \<Rightarrow> string \<Rightarrow> string \<Rightarrow> VirtualService \<Rightarrow> (error + VirtualService) \<times> cluster" where
  "VirtualServices_Patch e cl ns name doc =
     (case virtualServicesPatchErr e of
        Some err \<Rightarrow> (Inl err, cl)
      | None \<Rightarrow>
          if sameObject ns name doc
          then
            (if list_ex (sameObject ns name) (virtualServices cl)
             then (Inr doc, cl\<lparr>virtualServices :=
                      map (\<lambda>vs. if sameObject ns name vs then doc else vs) (virtualServices cl)\<rparr>)
             else (Inr doc, cl\<lparr>virtualServices := virtualServices cl @ [doc]\<rparr>))
          else (Inl (ApiError ''the name or namespace of the object does not match the request''), cl))"

subsection \<open>Cloning the Service\<close>

text \<open>The search loop of \<^verbatim>\<open>createService\<close>: the first item of that name, else the zero value.\<close>

fun findService :: "string \<Rightarrow> Service list \<Rightarrow> Service" where
  "findService name [] = zeroService"
| "findService name (item # items) =
     (if svc_Name item = name then item else findService name items)"

text \<open>
  The selector loop: every entry visited overwrites the pointer, so the last one visited
  stays, and the pointer is nil when there is no entry.
\<close>

definition rangeSelector :: "gomap \<Rightarrow> deploySelector option" where
  "rangeSelector m =
     foldl (\<lambda>selector (k, v). Some \<lparr>sel_key = k, sel_value = v\<rparr>) None (mapRange m)"

definition createService ::
  "env \<Rightarrow> cluster \<Rightarrow> string \<Rightarrow> string \<Rightarrow> (failure + deploySelector) \<times> cluster" where
  "createService e cl name version =
     (case newK8sClient e of
        (cs, Some err) \<Rightarrow> (Inl (Returned err), cl)
      | (None, None) \<Rightarrow> (Inl (Panicked NilPointerDereference), cl)
      | (Some itf, None) \<Rightarrow>
     (case Services_List e cl of
        Inl err \<Rightarrow> (Inl (Returned err), cl)
      | Inr items \<Rightarrow>
     (let baseSvc = findService name items in
      case rangeSelector (svc_Selector baseSvc) of
        None \<Rightarrow> (Inl (Returned (NotFoundSelector name)), cl)
      | Some selector \<Rightarrow>
     (let newSvc = baseSvc\<lparr>svc_Name := previewName (svc_Name baseSvc) version,
                            svc_ResourceVersion := []\<rparr> in
      case mapAssign (svc_Labels newSvc) (sel_key selector)
             (previewName (sel_value selector) version) of
        Inl p \<Rightarrow> (Inl (Panicked p), cl)
      | Inr labels \<Rightarrow>
     (case mapAssign (svc_Selector newSvc) (sel_key selector)
             (previewName (sel_value selector) version) of
        Inl p \<Rightarrow> (Inl (Panicked p), cl)
      | Inr sel \<Rightarrow>
     (case Services_Create e cl (newSvc\<lparr>svc_Labels := labels, svc_Selector := sel\<rparr>) of
        (Inl err, cl') \<Rightarrow> (Inl (Returned err), cl')
      | (Inr created, cl') \<Rightarrow> (Inr selector, cl')))))))"

subsection \<open>Cloning the Deployment\<close>

text \<open>
  The search loop of \<^verbatim>\<open>createDeploy\<close>: \<^verbatim>\<open>item.Spec.Selector.MatchLabels[selector.key]\<close>
  dereferences the item's selector pointer; the first item whose match-labels hold the
  selector's value under its key is taken, else the zero value stays.
\<close>

fun findDeploy :: "deploySelector \<Rightarrow> Deployment list \<Rightarrow> panic + Deployment" where
  "findDeploy selector [] = Inr zeroDeployment"
| "findDeploy selector (item # items) =
     (case dep_Selector item of
        None \<Rightarrow> Inl NilPointerDereference
      | Some matchLabels \<Rightarrow>
          (case mapIndex matchLabels (sel_key selector) of
             None \<Rightarrow> findDeploy selector items
           | Some val \<Rightarrow> if val = sel_value selector then Inr item else findDeploy selector items))"

definition createDeploy ::
  "env \<Rightarrow> cluster \<Rightarrow> deploySelector \<Rightarrow> string \<Rightarrow> (failure + unit) \<times> cluster" where
  "createDeploy e cl selector version =
     (case newK8sClient e of
        (cs, Some err) \<Rightarrow> (Inl (Returned err), cl)
      | (None, None) \<Rightarrow> (Inl (Panicked NilPointerDereference), cl)
      | (Some itf, None) \<Rightarrow>
     (case Deployments_List e cl of
        Inl err \<Rightarrow> (Inl (Returned err), cl)
      | Inr items \<Rightarrow>
     (case findDeploy selector items of
        Inl p \<Rightarrow> (Inl (Panicked p), cl)
      | Inr baseDeploy \<Rightarrow>
     (let newDeploy = baseDeploy\<lparr>dep_Name := previewName (dep_Name baseDeploy) version,
                                  dep_ResourceVersion := []\<rparr> in
      case dep_Selector newDeploy of
        None \<Rightarrow> (Inl (Panicked NilPointerDereference), cl)
      | Some matchLabels \<Rightarrow>
     (case mapAssign matchLabels (sel_key selector)
             (previewName (sel_value selector) version) of
        Inl p \<Rightarrow> (Inl (Panicked p), cl)
      | Inr matchLabels' \<Rightarrow>
     (case (case mapIndex (dep_TemplateLabels newDeploy) (sel_key selector) of
              None \<Rightarrow> Inr (dep_TemplateLabels newDeploy)
            | Some old \<Rightarrow> mapAssign (dep_TemplateLabels newDeploy) (sel_key selector)
                           (previewName (sel_value selector) version)) of
        Inl p \<Rightarrow> (Inl (Panicked p), cl)
      | Inr templateLabels \<Rightarrow>
     (case Deployments_Create e cl
             (newDeploy\<lparr>dep_Selector := Some matchLabels',
                        dep_TemplateLabels := templateLabels\<rparr>) of
        (Inl err, cl') \<Rightarrow> (Inl (Returned err), cl')
      | (Inr created, cl') \<Rightarrow> (Inr (), cl'))))))))"

subsection \<open>The gateway route\<close>

definition svcHost :: "string \<Rightarrow> string" where
  \<comment> \<open>\<^verbatim>\<open>fmt.Sprintf("%s.%s.svc.cluster.local", originSvcName, appNamespace)\<close>\<close>
  "svcHost originSvcName = originSvcName @ ''.'' @ appNamespace @ ''.svc.cluster.local''"

text \<open>The object literal of \<^verbatim>\<open>createGatewayVirtualService\<close>.\<close>

definition gatewayVirtualService ::
  "string \<Rightarrow> string \<Rightarrow> string \<Rightarrow> string \<Rightarrow> VirtualService" where
  "gatewayVirtualService url gateway originSvcName version =
     (let previewSvcName = svcHost originSvcName;
          previewHost = previewName previewSvcName version
      in \<lparr>vs_Kind = ''VirtualService'',
          vs_APIVersion = ''networking.istio.io/v1beta1'',
          vs_Name = previewGatewayVirtualServiceName originSvcName version,
          vs_Namespace = istioNamespace,
          vs_ManagedFields = [],
          vs_Hosts = [url],
          vs_Gateways = [gateway],
          vs_Http =
            [\<lparr>rt_Name = previewHost,
              rt_Match = [],
              rt_Route =
                [\<lparr>rd_HeadersRequestAdd = [(previewHeader, previewName originSvcName version)],
                  rd_DestinationHost = previewHost\<rparr>]\<rparr>]\<rparr>)"

text \<open>
  \<^verbatim>\<open>createGatewayVirtualService\<close>. Its check of the client's error is \<^verbatim>\<open>if err != err\<close>,
  written here as it stands; a method call on the nil client dereferences it.
\<close>

definition createGatewayVirtualService ::
  "env \<Rightarrow> cluster \<Rightarrow> string \<Rightarrow> string \<Rightarrow> string \<Rightarrow> string \<Rightarrow> (failure + unit) \<times> cluster" where
  "createGatewayVirtualService e cl url gateway originSvcName version =
     (case newIstioClient e of (ics, err) \<Rightarrow>
      if err \<noteq> err
      then (case err of Some er \<Rightarrow> (Inl (Returned er), cl) | None \<Rightarrow> (Inr (), cl))
      else
     (case ics of
        None \<Rightarrow> (Inl (Panicked NilPointerDereference), cl)
      | Some itf \<Rightarrow>
     (case VirtualServices_Create e cl istioNamespace
             (gatewayVirtualService url gateway originSvcName version) of
        (Inl er, cl') \<Rightarrow> (Inl (Returned (FailedCreateVirtualService er)), cl')
      | (Inr created, cl') \<Rightarrow> (Inr (), cl'))))"

subsection \<open>Sorting\<close>

text \<open>
  \<^verbatim>\<open>sort.Slice(x, less)\<close> belongs to Go's standard library. It reads the slice only
  through \<open>less\<close>, which gets two indices, and changes it only by swapping two elements.
  A slice of at most 12 elements ends in the library's insertion sort:
  \<^verbatim>\<open>
  for i := a + 1; i < b; i++ {
      for j := i; j > a && data.Less(j, j-1); j-- {
          data.Swap(j, j-1)
      }
  }
  \<close>
  with \<open>a = 0\<close> and \<open>b\<close> the length; the indices it swaps are within the slice. Up
  to 6 elements that is all the library does, in every release. From 7 to 12 elements
  the releases differ in what comes before it (up to Go 1.18 a pass that swaps elements
  at distance 6, from Go 1.19 on nothing), and a longer slice is sorted by a quicksort;
  neither is modelled, only that it is some sequence of swaps, which a parameter gives.
\<close>

definition swapAt :: "'a list \<Rightarrow> nat \<Rightarrow> nat \<Rightarrow> 'a list" where
  "swapAt data i j = data[i := data ! j, j := data ! i]"

fun insertionInner ::
  "('a list \<Rightarrow> nat \<Rightarrow> nat \<Rightarrow> bool) \<Rightarrow> nat \<Rightarrow> 'a list \<Rightarrow> nat \<Rightarrow> 'a list" where
  "insertionInner lessFn a data j =
     (if j > a \<and> lessFn data j (j - 1)
      then insertionInner lessFn a (swapAt data j (j - 1)) (j - 1)
      else data)"

function insertionOuter ::
  "('a list \<Rightarrow> nat \<Rightarrow> nat \<Rightarrow> bool) \<Rightarrow> nat \<Rightarrow> nat \<Rightarrow> 'a list \<Rightarrow> nat \<Rightarrow> 'a list" where
  "insertionOuter lessFn a b data i =
     (if i < b then insertionOuter lessFn a b (insertionInner lessFn a data i) (i + 1) else data)"
  by pat_completeness auto
termination
  by (relation "measure (\<lambda>(lessFn, a, b, data, i). b - i)") auto

definition insertionSortLessFunc ::
  "('a list \<Rightarrow> nat \<Rightarrow> nat \<Rightarrow> bool) \<Rightarrow> 'a list \<Rightarrow> nat \<Rightarrow> nat \<Rightarrow> 'a list" where
  "insertionSortLessFunc lessFn data a b = insertionOuter lessFn a b data (a + 1)"

definition applySwaps :: "'a list \<Rightarrow> (nat \<times> nat) list \<Rightarrow> 'a list" where
  "applySwaps data sws =
     foldl (\<lambda>d (i, j). if i < length d \<and> j < length d then swapAt d i j else d) data sws"

definition sort_Slice ::
  "('a list \<Rightarrow> (nat \<times> nat) list) \<Rightarrow> ('a list \<Rightarrow> nat \<Rightarrow> nat \<Rightarrow> bool) \<Rightarrow> 'a list \<Rightarrow> 'a list" where
  "sort_Slice long lessFn data =
     (if length data \<le> 6 then insertionSortLessFunc lessFn data 0 (length data)
      else if length data \<le> 12
      then (let swapped = applySwaps data (long data)
            in insertionSortLessFunc lessFn swapped 0 (length swapped))
      else applySwaps data (long data))"

subsection \<open>Route composition\<close>

text \<open>
  The search loop of \<^verbatim>\<open>createSidecarVirtualService\<close>: an item that names a gateway is
  skipped, and every host equal to the origin host overwrites the pointer with a copy of
  its item, so the last such item stays.
\<close>

definition findBaseResource :: "string \<Rightarrow> VirtualService list \<Rightarrow> VirtualService option" where
  "findBaseResource originHost items =
     foldl (\<lambda>baseResource i.
              if length (vs_Gateways i) \<noteq> 0 then baseResource
              else foldl (\<lambda>b h. if h = originHost then Some i else b) baseResource (vs_Hosts i))
       None items"

text \<open>The object literal for a new sidecar routing object.\<close>

definition baseVirtualService :: "string \<Rightarrow> VirtualService" where
  "baseVirtualService originSvcName =
     (let originHost = svcHost originSvcName
      in \<lparr>vs_Kind = ''VirtualService'',
          vs_APIVersion = ''networking.istio.io/v1beta1'',
          vs_Name = previewVirtualServiceName originSvcName,
          vs_Namespace = istioNamespace,
          vs_ManagedFields = [],
          vs_Hosts = [originHost],
          vs_Gateways = [],
          vs_Http =
            [\<lparr>rt_Name = originHost,
              rt_Match = [],
              rt_Route = [\<lparr>rd_HeadersRequestAdd = [], rd_DestinationHost = originHost\<rparr>]\<rparr>]\<rparr>)"

text \<open>The route literal: the preview route of a version.\<close>

definition previewRoute :: "string \<Rightarrow> string \<Rightarrow> HTTPRoute" where
  "previewRoute originSvcName version =
     (let previewHost = previewName (svcHost originSvcName) version
      in \<lparr>rt_Name = previewHost,
          rt_Match = [\<lparr>mr_Headers = [(previewHeader, StringMatch_Prefix (previewName [] version))]\<rparr>],
          rt_Route = [\<lparr>rd_HeadersRequestAdd = [], rd_DestinationHost = previewHost\<rparr>]\<rparr>)"

text \<open>
  The base object: the one found, or (\<^verbatim>\<open>baseResource == nil\<close>) the one the registry returns
  for the creation of a new one.
\<close>

definition obtainBaseResource ::
  "env \<Rightarrow> cluster \<Rightarrow> VirtualService list \<Rightarrow> string \<Rightarrow> (failure + VirtualService) \<times> cluster" where
  "obtainBaseResource e cl items originSvcName =
     (case findBaseResource (svcHost originSvcName) items of
        Some baseResource \<Rightarrow> (Inr baseResource, cl)
      | None \<Rightarrow>
          (case VirtualServices_Create e cl istioNamespace (baseVirtualService originSvcName) of
             (Inl err, cl') \<Rightarrow> (Inl (Returned err), cl')
           | (Inr ret, cl') \<Rightarrow> (Inr ret, cl')))"

text \<open>
  The comparison given to \<^verbatim>\<open>sort.Slice\<close>,
  \<^verbatim>\<open>func(i, _ int) bool { return strings.HasPrefix(baseResource.Spec.Http[i].Name, previewPrefixName) }\<close>:
  it reads the slice being sorted at its first index and ignores the second.
\<close>

definition lessPreview :: "HTTPRoute list \<Rightarrow> nat \<Rightarrow> nat \<Rightarrow> bool" where
  "lessPreview http i j = HasPrefix (rt_Name (http ! i)) previewPrefixName"

text \<open>The append, the reset of the bookkeeping fields and the sort.\<close>

definition composeRoutes :: "env \<Rightarrow> VirtualService \<Rightarrow> HTTPRoute \<Rightarrow> VirtualService" where
  "composeRoutes e baseResource route =
     baseResource
       \<lparr>vs_Kind := ''VirtualService'',
        vs_APIVersion := ''networking.istio.io/v1beta1'',
        vs_ManagedFields := [],
        vs_Http := sort_Slice (longSwaps e) lessPreview (vs_Http baseResource @ [route])\<rparr>"

definition createSidecarVirtualService ::
  "env \<Rightarrow> cluster \<Rightarrow> string \<Rightarrow> string \<Rightarrow> (failure + unit) \<times> cluster" where
  "createSidecarVirtualService e cl originSvcName version =
     (case newIstioClient e of (ics, err) \<Rightarrow>
      if err \<noteq> err
      then (case err of Some er \<Rightarrow> (Inl (Returned er), cl) | None \<Rightarrow> (Inr (), cl))
      else
     (case ics of
        None \<Rightarrow> (Inl (Panicked NilPointerDereference), cl)
      | Some itf \<Rightarrow>
     (case VirtualServices_List e cl of
        Inl er \<Rightarrow> (Inl (Returned er), cl)
      | Inr items \<Rightarrow>
     (case obtainBaseResource e cl items originSvcName of
        (Inl f, cl1) \<Rightarrow> (Inl f, cl1)
      | (Inr baseResource, cl1) \<Rightarrow>
     (let doc = composeRoutes e baseResource (previewRoute originSvcName version) in
      case marshalErr e of
        Some er \<Rightarrow> (Inl (Returned er), cl1)
      | None \<Rightarrow>
     (case VirtualServices_Patch e cl1 istioNamespace (vs_Name doc) doc of
        (Inl er, cl2) \<Rightarrow> (Inl (Returned er), cl2)
      | (Inr patched, cl2) \<Rightarrow> (Inr (), cl2)))))))"

subsection \<open>The create command\<close>

record cmdCreate =
  originService :: string
  previewVersion :: string
  previewGateway :: string
  previewURL :: string

definition RunE :: "env \<Rightarrow> cluster \<Rightarrow> cmdCreate \<Rightarrow> (failure + unit) \<times> cluster" where
  "RunE e cl c =
     (case createService e cl (originService c) (previewVersion c) of
        (Inl f, cl1) \<Rightarrow> (Inl f, cl1)
      | (Inr selector, cl1) \<Rightarrow>
     (case createDeploy e cl1 selector (previewVersion c) of
        (Inl f, cl2) \<Rightarrow> (Inl f, cl2)
      | (Inr u, cl2) \<Rightarrow>
     (case createSidecarVirtualService e cl2 (originService c) (previewVersion c) of
        (Inl f, cl3) \<Rightarrow> (Inl f, cl3)
      | (Inr u, cl3) \<Rightarrow>
     (case createGatewayVirtualService e cl3 (previewURL c) (previewGateway c)
             (originService c) (previewVersion c) of
        (Inl f, cl4) \<Rightarrow> (Inl f, cl4)
      | (Inr u, cl4) \<Rightarrow> (Inr (), cl4)))))"

text \<open>
  The flag library (cobra with pflag) is outside the repository. Its model:
  \<^verbatim>\<open>StringVarP\<close> adds a flag with its default value; \<^verbatim>\<open>MarkFlagRequired(name)\<close> marks the
  flag of that name as required and returns an error, changing nothing, when there is no
  such flag; before it runs the command, the library rejects a command line that does not
  set every flag marked as required. A command line is given by the flags it sets, by
  name, with their values.
\<close>

record Flag =
  flag_Name :: string
  flag_Shorthand :: string
  flag_DefValue :: string
  flag_Required :: bool

definition StringVarP :: "Flag list \<Rightarrow> string \<Rightarrow> string \<Rightarrow> string \<Rightarrow> Flag list" where
  "StringVarP flags name shorthand val =
     flags @ [\<lparr>flag_Name = name, flag_Shorthand = shorthand, flag_DefValue = val,
               flag_Required = False\<rparr>]"

definition MarkFlagRequired :: "Flag list \<Rightarrow> string \<Rightarrow> Flag list \<times> string option" where
  "MarkFlagRequired flags name =
     (if name \<in> set (map flag_Name flags)
      then (map (\<lambda>f. if flag_Name f = name then f\<lparr>flag_Required := True\<rparr> else f) flags, None)
      else (flags, Some (''no such flag -'' @ name)))"

text \<open>\<^verbatim>\<open>cmdCreate.New\<close>: the flags of the command. The program drops what
  \<^verbatim>\<open>MarkFlagRequired\<close> returns.\<close>

definition cmdCreate_New :: "Flag list" where
  "cmdCreate_New =
     (let flags = StringVarP [] ''version'' ''v'' [];
          flags = fst (MarkFlagRequired flags ''version'');
          flags = StringVarP flags ''service'' ''s'' [];
          flags = fst (MarkFlagRequired flags ''service'');
          flags = StringVarP flags ''gateway'' ''g'' ''my-gateway'';
          flags = StringVarP flags ''url'' ''u'' [];
          flags = fst (MarkFlagRequired flags ''previewURL'')
      in flags)"

definition flagValue :: "Flag list \<Rightarrow> (string \<times> string) list \<Rightarrow> string \<Rightarrow> string" where
  "flagValue flags args name =
     (case map_of args name of
        Some v \<Rightarrow> v
      | None \<Rightarrow> concat (map flag_DefValue (filter (\<lambda>f. flag_Name f = name) flags)))"

definition missingFlagNames :: "Flag list \<Rightarrow> (string \<times> string) list \<Rightarrow> string list" where
  "missingFlagNames flags args =
     map flag_Name (filter (\<lambda>f. flag_Required f \<and> map_of args (flag_Name f) = None) flags)"

definition execute :: "env \<Rightarrow> cluster \<Rightarrow> (string \<times> string) list \<Rightarrow> (failure + unit) \<times> cluster" where
  "execute e cl args =
     (let flags = cmdCreate_New in
      if missingFlagNames flags args \<noteq> []
      then (Inl (Returned (RequiredFlagsNotSet (missingFlagNames flags args))), cl)
      else RunE e cl
             \<lparr>originService = flagValue flags args ''service'',
              previewVersion = flagValue flags args ''version'',
              previewGateway = flagValue flags args ''gateway'',
              previewURL = flagValue flags args ''url''\<rparr>)"

subsection \<open>Predicates and inputs of the properties\<close>

text \<open>A route whose name starts with the reserved prefix: what the comparison tests.\<close>

definition isPreview :: "HTTPRoute \<Rightarrow> bool" where
  "isPreview r = HasPrefix (rt_Name r) previewPrefixName"

text \<open>
  A route sequence in which every route with the prefix stands before every route
  without it: behind the leading routes with the prefix, no route has it.
\<close>

definition previewFirst :: "HTTPRoute list \<Rightarrow> bool" where
  "previewFirst http = list_all (\<lambda>r. \<not> isPreview r) (dropWhile isPreview http)"

text \<open>An environment in which no call is refused.\<close>

definition healthy :: "env \<Rightarrow> bool" where
  "healthy e =
     (getRestConfig e = None \<and> k8sNewForConfig e = None \<and> istioNewForConfig e = None
      \<and> servicesListErr e = None \<and> servicesCreateErr e = None
      \<and> deploymentsListErr e = None \<and> deploymentsCreateErr e = None
      \<and> virtualServicesListErr e = None \<and> virtualServicesCreateErr e = None
      \<and> virtualServicesPatchErr e = None \<and> marshalErr e = None)"


text \<open>
  A mesh-internal routing object of the origin host: it names no gateway and its host
  list contains the host.
\<close>

definition candidate :: "string \<Rightarrow> VirtualService \<Rightarrow> bool" where
  "candidate originHost vs = (vs_Gateways vs = [] \<and> originHost \<in> set (vs_Hosts vs))"

text \<open>The stored objects after a document has taken the place of the object of a name.\<close>

definition replaceObject ::
  "string \<Rightarrow> VirtualService \<Rightarrow> VirtualService list \<Rightarrow> VirtualService list" where
  "replaceObject name doc vss =
     map (\<lambda>vs. if sameObject istioNamespace name vs then doc else vs) vss"

text \<open>Route composition for one version, then for a second one, on the same origin.\<close>

definition composeTwice ::
  "env \<Rightarrow> cluster \<Rightarrow> string \<Rightarrow> string \<Rightarrow> string \<Rightarrow> (failure + unit) \<times> cluster" where
  "composeTwice e cl originSvcName v1 v2 =
     (case createSidecarVirtualService e cl originSvcName v1 of
        (Inl f, cl1) \<Rightarrow> (Inl f, cl1)
      | (Inr u, cl1) \<Rightarrow> createSidecarVirtualService e cl1 originSvcName v2)"

text \<open>The default route of an origin: the one route of \<open>baseVirtualService\<close>.\<close>

definition defaultRoute :: "string \<Rightarrow> HTTPRoute" where
  "defaultRoute originSvcName =
     \<lparr>rt_Name = svcHost originSvcName, rt_Match = [],
      rt_Route = [\<lparr>rd_HeadersRequestAdd = [], rd_DestinationHost = svcHost originSvcName\<rparr>]\<rparr>"

text \<open>
  What the routing layer does with the objects, as far as the properties need it: the
  headers a routing object adds to a request it forwards, and whether a request with given
  headers satisfies a route's match (a route without a match predicate takes every
  request).
\<close>

definition stampedHeaders :: "VirtualService \<Rightarrow> (string \<times> string) list" where
  "stampedHeaders vs = concat (map rd_HeadersRequestAdd (concat (map rt_Route (vs_Http vs))))"

definition stringMatches :: "StringMatch \<Rightarrow> string \<Rightarrow> bool" where
  "stringMatches m s =
     (case m of StringMatch_Prefix p \<Rightarrow> HasPrefix s p | StringMatch_Exact x \<Rightarrow> s = x)"

definition matchesRequest :: "HTTPMatchRequest \<Rightarrow> (string \<times> string) list \<Rightarrow> bool" where
  "matchesRequest mr headers =
     list_all (\<lambda>(h, m). case map_of headers h of None \<Rightarrow> False | Some v \<Rightarrow> stringMatches m v)
       (mr_Headers mr)"

definition routeMatches :: "HTTPRoute \<Rightarrow> (string \<times> string) list \<Rightarrow> bool" where
  "routeMatches r headers =
     (rt_Match r = [] \<or> list_ex (\<lambda>mr. matchesRequest mr headers) (rt_Match r))"

text \<open>
  Concrete inputs: a run outside the cluster with a readable configuration file, and a
  cluster with the service \<^verbatim>\<open>checkout\<close> and its workload.
\<close>

definition localEnv :: env where
  "localEnv =
     \<lparr>RUN_IN_CLUSTER = [], inClusterConfig = Some (ConfigError ''not in a cluster''),
      buildConfigFromFlags = None, k8sNewForConfig = None, istioNewForConfig = None,
      servicesListErr = None, servicesCreateErr = None,
      deploymentsListErr = None, deploymentsCreateErr = None,
      virtualServicesListErr = None, virtualServicesCreateErr = None,
      virtualServicesPatchErr = None, marshalErr = None,
      longSwaps = (\<lambda>data. [])\<rparr>"

definition checkoutService :: Service where
  "checkoutService =
     \<lparr>svc_Name = ''checkout'', svc_ResourceVersion = ''1001'',
      svc_Labels = Some [(''app'', ''checkout'')], svc_Selector = Some [(''app'', ''checkout'')]\<rparr>"

definition checkoutDeployment :: Deployment where
  "checkoutDeployment =
     \<lparr>dep_Name = ''checkout'', dep_ResourceVersion = ''1002'',
      dep_Selector = Some (Some [(''app'', ''checkout'')]),
      dep_TemplateLabels = Some [(''app'', ''checkout'')]\<rparr>"

definition checkoutCluster :: cluster where
  "checkoutCluster =
     \<lparr>services = [checkoutService], deployments = [checkoutDeployment], virtualServices = []\<rparr>"

text \<open>
  The preview Service of \<^verbatim>\<open>checkout\<close> for version \<^verbatim>\<open>42\<close>; a command for a service
  \<^verbatim>\<open>cart\<close>; a cluster whose only Service is \<^verbatim>\<open>cart\<close> with given label and selector
  maps; an environment in which the routing client cannot be built.
\<close>

definition checkoutPreviewService :: Service where
  "checkoutPreviewService =
     \<lparr>svc_Name = ''pr42-checkout'', svc_ResourceVersion = [],
      svc_Labels = Some [(''app'', ''pr42-checkout'')],
      svc_Selector = Some [(''app'', ''pr42-checkout'')]\<rparr>"

definition cartCommand :: cmdCreate where
  "cartCommand =
     \<lparr>originService = ''cart'', previewVersion = ''42'', previewGateway = ''my-gateway'',
      previewURL = ''https://pr42.example.com''\<rparr>"

definition cartCluster :: "gomap \<Rightarrow> gomap \<Rightarrow> cluster" where
  "cartCluster labels selector =
     \<lparr>services = [\<lparr>svc_Name = ''cart'', svc_ResourceVersion = ''1003'',
                    svc_Labels = labels, svc_Selector = selector\<rparr>],
      deployments = [], virtualServices = []\<rparr>"

definition noIstioEnv :: env where
  "noIstioEnv = localEnv\<lparr>istioNewForConfig := Some (ConfigError ''invalid configuration'')\<rparr>"

text \<open>
  The shared routing object of \<^verbatim>\<open>checkout\<close> holding the preview routes of the given
  versions, in that order, and then the default route; and the cluster that stores it.
\<close>

definition checkoutRoutes :: "string list \<Rightarrow> VirtualService" where
  "checkoutRoutes versions =
     (baseVirtualService ''checkout'')
       \<lparr>vs_Http := map (previewRoute ''checkout'') versions @ [defaultRoute ''checkout'']\<rparr>"

definition routedCluster :: "string list \<Rightarrow> cluster" where
  "routedCluster versions = checkoutCluster\<lparr>virtualServices := [checkoutRoutes versions]\<rparr>"

section \<open>Properties\<close>

subsection \<open>The naming codec\<close>

lemma HasPrefix_append [simp]: "HasPrefix (p @ s) p"
  by (simp add: HasPrefix_def)

lemma Index_first:
  "c \<notin> set v \<Longrightarrow> Index (v @ c # rest) [c] = Some (length v)"
  by (induction v) (auto simp: HasPrefix_def)

lemma not_Contains_char: "\<not> Contains v [c] \<Longrightarrow> c \<notin> set v"
  unfolding Contains_def
  by (induction v) (auto simp: HasPrefix_def split: if_splits)

text \<open>
  C3. For every origin name \<open>n\<close> and version tag \<open>v\<close> that contain neither the reserved
  prefix nor the separator character, decoding the encoded preview name returns the
  version: \<open>getVersionFromPreview (previewName n v)\<close> returns \<open>v\<close>.
\<close>

theorem decode_encode_version:
  assumes "\<not> Contains n previewPrefixName" and "\<not> Contains n ''-''"
    and "\<not> Contains v previewPrefixName" and "\<not> Contains v ''-''"
  shows "getVersionFromPreview (previewName n v) = Inr v"
proof -
  have sep: "CHR ''-'' \<notin> set v"
    using assms(4) by (rule not_Contains_char)
  have "previewName n v = previewPrefixName @ (v @ CHR ''-'' # n)"
    by (simp add: previewName_def)
  moreover have "SplitN (v @ CHR ''-'' # n) ''-'' 2 = [v, n]"
    using sep by (simp add: SplitN_def Index_first)
  ultimately show ?thesis
    by (simp add: getVersionFromPreview_def)
qed

theorem decode_encode_version_witness:
  "\<not> Contains ''checkout'' previewPrefixName \<and> \<not> Contains ''checkout'' ''-''
   \<and> \<not> Contains ''42'' previewPrefixName \<and> \<not> Contains ''42'' ''-''
   \<and> getVersionFromPreview (previewName ''checkout'' ''42'') = Inr ''42''"
proof -
  have a: "\<not> Contains ''checkout'' previewPrefixName"
    by (simp add: Contains_def previewPrefixName_def HasPrefix_def)
  have b: "\<not> Contains ''checkout'' ''-''"
    by (simp add: Contains_def HasPrefix_def)
  have c: "\<not> Contains ''42'' previewPrefixName"
    by (simp add: Contains_def previewPrefixName_def HasPrefix_def)
  have d: "\<not> Contains ''42'' ''-''"
    by (simp add: Contains_def HasPrefix_def)
  show ?thesis using decode_encode_version [OF a b c d] a b c d by simp
qed

subsection \<open>The comparison and the sort\<close>

declare insertionInner.simps [simp del]
declare insertionOuter.simps [simp del]

lemma swapAt_adjacent:
  "swapAt (ys @ y # x # zs) (Suc (length ys)) (length ys) = ys @ x # y # zs"
  by (simp add: swapAt_def list_update_append nth_append)

text \<open>
  With a comparison that looks at its first index only, the inner loop carries the
  element at \<open>j\<close> to the front when it satisfies the test, and leaves the slice alone
  otherwise.
\<close>

lemma insertionInner_front:
  "insertionInner (\<lambda>d i j. P (d ! i)) 0 (ys @ x # zs) (length ys)
     = (if P x then x # ys @ zs else ys @ x # zs)"
proof (induction ys arbitrary: zs rule: rev_induct)
  case Nil
  show ?case by (subst insertionInner.simps) simp
next
  case (snoc y ys)
  have step: "swapAt ((ys @ [y]) @ x # zs) (Suc (length ys)) (length ys) = ys @ x # y # zs"
    using swapAt_adjacent [of ys y x zs] by simp
  show ?case
  proof (cases "P x")
    case True
    have "insertionInner (\<lambda>d i j. P (d ! i)) 0 ((ys @ [y]) @ x # zs) (length (ys @ [y]))
            = insertionInner (\<lambda>d i j. P (d ! i)) 0 (ys @ x # y # zs) (length ys)"
      by (subst insertionInner.simps) (simp add: True step nth_append del: append_assoc)
    then show ?thesis using snoc.IH [of "y # zs"] True by simp
  next
    case False
    then show ?thesis
      by (subst insertionInner.simps) (simp add: nth_append)
  qed
qed

lemma insertionOuter_from:
  "insertionOuter (\<lambda>d i j. P (d ! i)) 0 (length ys + length zs) (ys @ zs) (length ys)
     = rev (filter P zs) @ ys @ filter (\<lambda>x. \<not> P x) zs"
proof (induction zs arbitrary: ys)
  case Nil
  show ?case by (subst insertionOuter.simps) simp
next
  case (Cons z zs)
  show ?case
  proof (cases "P z")
    case True
    have "insertionOuter (\<lambda>d i j. P (d ! i)) 0 (length ys + length (z # zs)) (ys @ z # zs) (length ys)
            = insertionOuter (\<lambda>d i j. P (d ! i)) 0 (length (z # ys) + length zs) ((z # ys) @ zs) (length (z # ys))"
      by (subst insertionOuter.simps) (simp add: insertionInner_front True)
    then show ?thesis using Cons.IH [of "z # ys"] True by simp
  next
    case False
    have "insertionOuter (\<lambda>d i j. P (d ! i)) 0 (length ys + length (z # zs)) (ys @ z # zs) (length ys)
            = insertionOuter (\<lambda>d i j. P (d ! i)) 0 (length (ys @ [z]) + length zs) ((ys @ [z]) @ zs) (length (ys @ [z]))"
      by (subst insertionOuter.simps) (simp add: insertionInner_front False)
    then show ?thesis using Cons.IH [of "ys @ [z]"] False by simp
  qed
qed

lemma insertionSortLessFunc_partition:
  "insertionSortLessFunc (\<lambda>d i j. P (d ! i)) data 0 (length data)
     = rev (filter P data) @ filter (\<lambda>x. \<not> P x) data"
proof (cases data)
  case Nil
  then show ?thesis
    unfolding insertionSortLessFunc_def by (subst insertionOuter.simps) simp
next
  case (Cons x zs)
  show ?thesis
    unfolding insertionSortLessFunc_def Cons
    using insertionOuter_from [of P "[x]" zs] by simp
qed

lemma lessPreview_eq: "lessPreview = (\<lambda>d i j. isPreview (d ! i))"
  by (rule ext)+ (simp add: lessPreview_def isPreview_def)

lemma sort_Slice_short:
  "length data \<le> 6 \<Longrightarrow>
   sort_Slice long lessPreview data
     = rev (filter isPreview data) @ filter (\<lambda>r. \<not> isPreview r) data"
  unfolding sort_Slice_def lessPreview_eq
  by (simp add: insertionSortLessFunc_partition)

lemma previewFirst_partition:
  "previewFirst (rev (filter isPreview data) @ filter (\<lambda>r. \<not> isPreview r) data)"
proof -
  have "dropWhile isPreview (rev (filter isPreview data) @ filter (\<lambda>r. \<not> isPreview r) data)
          = dropWhile isPreview (filter (\<lambda>r. \<not> isPreview r) data)"
    by (rule dropWhile_append2) simp
  moreover have "set (dropWhile isPreview (filter (\<lambda>r. \<not> isPreview r) data))
          \<subseteq> set (filter (\<lambda>r. \<not> isPreview r) data)"
    by (auto dest: set_dropWhileD)
  ultimately show ?thesis
    by (auto simp: previewFirst_def list_all_iff)
qed

lemma sort_Slice_medium:
  "length data \<le> 12 \<Longrightarrow> previewFirst (sort_Slice long lessPreview data)"
  unfolding sort_Slice_def lessPreview_eq
  by (simp add: insertionSortLessFunc_partition Let_def previewFirst_partition)

lemma mset_swapAt:
  "i < length d \<Longrightarrow> j < length d \<Longrightarrow> mset (swapAt d i j) = mset d"
  unfolding swapAt_def by (simp add: mset_swap)

lemma mset_applySwaps: "mset (applySwaps data sws) = mset data"
  unfolding applySwaps_def
  by (induction sws arbitrary: data) (auto simp: mset_swapAt)

lemma mset_partition:
  "mset (rev (filter P data) @ filter (\<lambda>x. \<not> P x) data) = mset data"
  by (induction data) auto

lemma mset_sort_Slice: "mset (sort_Slice long lessPreview data) = mset data"
  unfolding sort_Slice_def lessPreview_eq
  by (simp add: insertionSortLessFunc_partition mset_partition mset_applySwaps Let_def
      del: mset_append mset_rev mset_filter)

subsection \<open>The environment\<close>

lemma healthy_localEnv: "healthy localEnv"
  by (simp add: healthy_def localEnv_def getRestConfig_def)

lemma healthy_k8s: "healthy e \<Longrightarrow> newK8sClient e = (Some Clientset, None)"
  by (simp add: healthy_def newK8sClient_def)

lemma healthy_istio: "healthy e \<Longrightarrow> newIstioClient e = (Some Clientset, None)"
  by (simp add: healthy_def newIstioClient_def)

subsection \<open>Cloning\<close>

lemma findService_absent:
  "name \<notin> set (map svc_Name items) \<Longrightarrow> findService name items = zeroService"
  by (induction items) auto

lemma rangeSelector_None: "mapRange m = [] \<Longrightarrow> rangeSelector m = None"
  by (simp add: rangeSelector_def)

lemma rangeSelector_Some:
  "mapRange m \<noteq> [] \<Longrightarrow>
   rangeSelector m = Some \<lparr>sel_key = fst (last (mapRange m)), sel_value = snd (last (mapRange m))\<rparr>"
  unfolding rangeSelector_def
  by (cases "mapRange m" rule: rev_cases) (auto simp: case_prod_beta)

text \<open>
  C5. When the client is built and the Services are listed, and the origin service is
  absent or its selector map has no entry, \<open>createService\<close> returns the
  selector-not-found error and the create command returns it too; the cluster is as it
  was, so no preview Service, Deployment or route has been created.
\<close>

theorem empty_selector_fails:
  assumes "newK8sClient e = (Some Clientset, None)"
    and "Services_List e cl = Inr items"
    and "originService c \<notin> set (map svc_Name items)
         \<or> mapRange (svc_Selector (findService (originService c) items)) = []"
  shows "createService e cl (originService c) (previewVersion c)
           = (Inl (Returned (NotFoundSelector (originService c))), cl)
         \<and> RunE e cl c = (Inl (Returned (NotFoundSelector (originService c))), cl)"
proof -
  have "mapRange (svc_Selector (findService (originService c) items)) = []"
    using assms(3) by (auto simp: findService_absent zeroService_def mapRange_def)
  then have "rangeSelector (svc_Selector (findService (originService c) items)) = None"
    by (rule rangeSelector_None)
  then have "createService e cl (originService c) (previewVersion c)
           = (Inl (Returned (NotFoundSelector (originService c))), cl)"
    using assms(1,2) by (simp add: createService_def)
  then show ?thesis by (simp add: RunE_def)
qed

theorem empty_selector_fails_witness:
  "newK8sClient localEnv = (Some Clientset, None)
   \<and> Services_List localEnv checkoutCluster = Inr [checkoutService]
   \<and> originService cartCommand \<notin> set (map svc_Name [checkoutService])
   \<and> RunE localEnv checkoutCluster cartCommand
       = (Inl (Returned (NotFoundSelector ''cart'')), checkoutCluster)
   \<and> Services_List localEnv (cartCluster None (Some [])) = Inr (services (cartCluster None (Some [])))
   \<and> mapRange (svc_Selector (findService (originService cartCommand)
                 (services (cartCluster None (Some []))))) = []
   \<and> RunE localEnv (cartCluster None (Some [])) cartCommand
       = (Inl (Returned (NotFoundSelector ''cart'')), cartCluster None (Some []))"
proof -
  have k: "newK8sClient localEnv = (Some Clientset, None)"
    by (rule healthy_k8s [OF healthy_localEnv])
  have l1: "Services_List localEnv checkoutCluster = Inr [checkoutService]"
    by (simp add: Services_List_def localEnv_def checkoutCluster_def)
  have a1: "originService cartCommand \<notin> set (map svc_Name [checkoutService])"
    by (simp add: cartCommand_def checkoutService_def)
  have l2: "Services_List localEnv (cartCluster None (Some []))
              = Inr (services (cartCluster None (Some [])))"
    by (simp add: Services_List_def localEnv_def)
  have a2: "mapRange (svc_Selector (findService (originService cartCommand)
                 (services (cartCluster None (Some []))))) = []"
    by (simp add: cartCommand_def cartCluster_def mapRange_def)
  have n: "originService cartCommand = ''cart''"
    by (simp add: cartCommand_def)
  show ?thesis
    using empty_selector_fails [OF k l1 disjI1 [OF a1]]
      empty_selector_fails [OF k l2 disjI2 [OF a2]] k l1 a1 l2 a2
    by (simp add: n)
qed





text \<open>
  C10. \<open>createService\<close> succeeds only when the label map of the origin service is not
  nil; and when the client is built, the Services are listed, the origin service has a
  selector entry and its label map is nil, the label rewrite is an assignment into a nil
  map: the run panics, no error is returned and the cluster is as it was.
\<close>

theorem createService_needs_labels:
  "(createService e cl name version = (Inr selector, cl')
      \<longrightarrow> svc_Labels (findService name (services cl)) \<noteq> None)
   \<and> (newK8sClient e = (Some Clientset, None) \<and> servicesListErr e = None
      \<and> mapRange (svc_Selector (findService name (services cl))) \<noteq> []
      \<and> svc_Labels (findService name (services cl)) = None
      \<longrightarrow> createService e cl name version = (Inl (Panicked NilMapAssignment), cl))"
proof (intro conjI impI)
  assume ok: "createService e cl name version = (Inr selector, cl')"
  show "svc_Labels (findService name (services cl)) \<noteq> None"
  proof
    assume nil: "svc_Labels (findService name (services cl)) = None"
    have "fst (createService e cl name version) \<noteq> Inr selector"
      by (auto simp: createService_def Services_List_def mapAssign_def nil Let_def
          split: prod.splits option.splits sum.splits)
    with ok show False by simp
  qed
next
  assume h: "newK8sClient e = (Some Clientset, None) \<and> servicesListErr e = None
      \<and> mapRange (svc_Selector (findService name (services cl))) \<noteq> []
      \<and> svc_Labels (findService name (services cl)) = None"
  then show "createService e cl name version = (Inl (Panicked NilMapAssignment), cl)"
    by (simp add: createService_def Services_List_def rangeSelector_Some mapAssign_def)
qed

lemma createService_checkout:
  "createService localEnv checkoutCluster ''checkout'' ''42''
     = (Inr \<lparr>sel_key = ''app'', sel_value = ''checkout''\<rparr>,
        checkoutCluster\<lparr>services := [checkoutService, checkoutPreviewService]\<rparr>)"
  by (simp add: createService_def newK8sClient_def getRestConfig_def localEnv_def
      Services_List_def Services_Create_def checkoutCluster_def checkoutService_def
      checkoutPreviewService_def rangeSelector_def mapRange_def mapAssign_def
      previewName_def previewPrefixName_def)

theorem createService_needs_labels_witness:
  "createService localEnv checkoutCluster ''checkout'' ''42''
     = (Inr \<lparr>sel_key = ''app'', sel_value = ''checkout''\<rparr>,
        checkoutCluster\<lparr>services := [checkoutService, checkoutPreviewService]\<rparr>)
   \<and> svc_Labels (findService ''checkout'' (services checkoutCluster)) \<noteq> None
   \<and> newK8sClient localEnv = (Some Clientset, None) \<and> servicesListErr localEnv = None
   \<and> mapRange (svc_Selector (findService ''cart''
        (services (cartCluster None (Some [(''app'', ''cart'')]))))) \<noteq> []
   \<and> svc_Labels (findService ''cart''
        (services (cartCluster None (Some [(''app'', ''cart'')])))) = None
   \<and> createService localEnv (cartCluster None (Some [(''app'', ''cart'')])) ''cart'' ''42''
       = (Inl (Panicked NilMapAssignment), cartCluster None (Some [(''app'', ''cart'')]))"
proof -
  have k: "newK8sClient localEnv = (Some Clientset, None)"
    by (rule healthy_k8s [OF healthy_localEnv])
  have l: "servicesListErr localEnv = None"
    by (simp add: localEnv_def)
  have s: "mapRange (svc_Selector (findService ''cart''
        (services (cartCluster None (Some [(''app'', ''cart'')]))))) \<noteq> []"
    by (simp add: cartCluster_def mapRange_def)
  have n: "svc_Labels (findService ''cart''
        (services (cartCluster None (Some [(''app'', ''cart'')])))) = None"
    by (simp add: cartCluster_def)
  note t1 = createService_needs_labels
    [of localEnv checkoutCluster "''checkout''" "''42''"
        "\<lparr>sel_key = ''app'', sel_value = ''checkout''\<rparr>"
        "checkoutCluster\<lparr>services := [checkoutService, checkoutPreviewService]\<rparr>"]
  note t2 = createService_needs_labels
    [of localEnv "cartCluster None (Some [(''app'', ''cart'')])" "''cart''" "''42''"]
  show ?thesis
    using t1 t2 createService_checkout k l s n by blast
qed

subsection \<open>The clients and the flags\<close>

text \<open>
  C2, at the failing input. When the routing client cannot be built,
  \<open>newIstioClient\<close> returns a nil client and the error; the test \<^verbatim>\<open>err != err\<close> is false,
  so neither \<open>createSidecarVirtualService\<close> nor \<open>createGatewayVirtualService\<close> returns
  the error: both go on with the nil client and panic.
\<close>

theorem client_error_not_returned:
  "newIstioClient noIstioEnv = (None, Some (ConfigError ''invalid configuration''))
   \<and> createSidecarVirtualService noIstioEnv checkoutCluster ''checkout'' ''42''
       = (Inl (Panicked NilPointerDereference), checkoutCluster)
   \<and> createGatewayVirtualService noIstioEnv checkoutCluster ''https://pr42.example.com''
         ''my-gateway'' ''checkout'' ''42''
       = (Inl (Panicked NilPointerDereference), checkoutCluster)"
  by (simp add: createSidecarVirtualService_def createGatewayVirtualService_def
      newIstioClient_def getRestConfig_def noIstioEnv_def localEnv_def)

text \<open>
  C9, at the failing input. The flags marked as required are \<^verbatim>\<open>version\<close> and
  \<^verbatim>\<open>service\<close> only: the third mark names \<^verbatim>\<open>previewURL\<close>, which is no flag. A command
  line that sets \<^verbatim>\<open>--version\<close> and \<^verbatim>\<open>--service\<close> and omits \<^verbatim>\<open>--url\<close> is not rejected:
  the stages run with an empty URL and with the gateway's default \<^verbatim>\<open>my-gateway\<close>.
\<close>

theorem url_flag_not_required:
  "map flag_Name (filter flag_Required cmdCreate_New) = [''version'', ''service'']
   \<and> missingFlagNames cmdCreate_New [(''version'', ''42''), (''service'', ''checkout'')] = []
   \<and> execute e cl [(''version'', ''42''), (''service'', ''checkout'')]
       = RunE e cl \<lparr>originService = ''checkout'', previewVersion = ''42'',
                    previewGateway = ''my-gateway'', previewURL = []\<rparr>"
  by (simp add: execute_def missingFlagNames_def flagValue_def cmdCreate_New_def
      StringVarP_def MarkFlagRequired_def)

subsection \<open>The header\<close>

text \<open>
  C8. For every origin name and version tag, the value the gateway route stamps on the
  header \<^verbatim>\<open>X-PREVIEW\<close>, \<open>previewName origin version\<close>, has \<open>previewName [] version\<close> as
  a prefix, which is the prefix the sidecar route of that version asks of that header: a
  request that carries the headers the gateway object adds satisfies the match of the
  sidecar route.
\<close>

theorem gateway_header_satisfies_sidecar_match:
  "HasPrefix (previewName origin version) (previewName [] version)
   \<and> stampedHeaders (gatewayVirtualService url gateway origin version)
       = [(previewHeader, previewName origin version)]
   \<and> rt_Match (previewRoute origin version)
       = [\<lparr>mr_Headers = [(previewHeader, StringMatch_Prefix (previewName [] version))]\<rparr>]
   \<and> routeMatches (previewRoute origin version)
       (stampedHeaders (gatewayVirtualService url gateway origin version))"
proof -
  have p: "HasPrefix (previewName origin version) (previewName [] version)"
    using HasPrefix_append [of "previewPrefixName @ version @ ''-''" origin]
    by (simp add: previewName_def)
  show ?thesis
    using p
    by (simp add: stampedHeaders_def gatewayVirtualService_def previewRoute_def
        routeMatches_def matchesRequest_def stringMatches_def Let_def)
qed

subsection \<open>Route composition\<close>

lemma hosts_fold:
  "foldl (\<lambda>b h. if h = originHost then Some i else b) b hosts
     = (if originHost \<in> set hosts then Some i else b)"
  by (induction hosts arbitrary: b) auto

lemma findBaseResource_step:
  "findBaseResource originHost items
     = foldl (\<lambda>b i. if candidate originHost i then Some i else b) None items"
  unfolding findBaseResource_def
  by (rule arg_cong [where f = "\<lambda>f. foldl f None items"])
    (auto simp: hosts_fold candidate_def fun_eq_iff)

text \<open>The search returns the last candidate of the listing.\<close>

lemma findBaseResource_last:
  "findBaseResource originHost items
     = (if filter (candidate originHost) items = [] then None
        else Some (last (filter (candidate originHost) items)))"
  unfolding findBaseResource_step
  by (induction items rule: rev_induct) auto

lemma findBaseResource_None:
  "\<not> list_ex (candidate originHost) items \<Longrightarrow> findBaseResource originHost items = None"
  by (simp add: findBaseResource_last filter_empty_conv list_ex_iff)


lemma findBaseResource_Some:
  assumes "findBaseResource originHost items = Some base"
  shows "candidate originHost base \<and> base \<in> set items"
proof -
  from assms have ne: "filter (candidate originHost) items \<noteq> []"
    and b: "base = last (filter (candidate originHost) items)"
    by (auto simp: findBaseResource_last split: if_splits)
  from ne b have "base \<in> set (filter (candidate originHost) items)"
    using last_in_set by blast
  then show ?thesis by simp
qed

lemma findBaseResource_snoc:
  "candidate originHost doc \<Longrightarrow> findBaseResource originHost (items @ [doc]) = Some doc"
  by (simp add: findBaseResource_last)

lemma replaceObject_absent:
  "\<not> list_ex (sameObject istioNamespace name) vss \<Longrightarrow> replaceObject name doc vss = vss"
  unfolding replaceObject_def by (induction vss) auto

lemma vs_Name_composeRoutes [simp]: "vs_Name (composeRoutes e base route) = vs_Name base"
  by (simp add: composeRoutes_def)

lemma vs_Namespace_composeRoutes [simp]:
  "vs_Namespace (composeRoutes e base route) = vs_Namespace base"
  by (simp add: composeRoutes_def)

text \<open>A run that finds the shared routing object, in the namespace it patches.\<close>

lemma createSidecar_existing:
  assumes h: "healthy e"
    and f: "findBaseResource (svcHost originSvcName) (virtualServices cl) = Some base"
    and ns: "vs_Namespace base = istioNamespace"
  shows "createSidecarVirtualService e cl originSvcName version
           = (Inr (), cl\<lparr>virtualServices :=
                replaceObject (vs_Name base)
                  (composeRoutes e base (previewRoute originSvcName version))
                  (virtualServices cl)\<rparr>)"
proof -
  have ex: "list_ex (sameObject istioNamespace (vs_Name base)) (virtualServices cl)"
    using findBaseResource_Some [OF f] ns by (auto simp: list_ex_iff sameObject_def)
  have l: "VirtualServices_List e cl = Inr (virtualServices cl)"
    using h by (simp add: VirtualServices_List_def healthy_def)
  have m: "marshalErr e = None" and p: "virtualServicesPatchErr e = None"
    using h by (simp_all add: healthy_def)
  show ?thesis
    by (simp add: createSidecarVirtualService_def healthy_istio [OF h] l
        obtainBaseResource_def f m p VirtualServices_Patch_def
        sameObject_def [of _ _ "composeRoutes _ _ _"] ns ex replaceObject_def)
qed

text \<open>A run that finds none, and no object under the name of the new one.\<close>

lemma createSidecar_fresh:
  assumes h: "healthy e"
    and none: "\<not> list_ex (candidate (svcHost originSvcName)) (virtualServices cl)"
    and free: "\<not> list_ex (sameObject istioNamespace (previewVirtualServiceName originSvcName))
                   (virtualServices cl)"
  shows "createSidecarVirtualService e cl originSvcName version
           = (Inr (), cl\<lparr>virtualServices := virtualServices cl @
                [composeRoutes e (baseVirtualService originSvcName)
                   (previewRoute originSvcName version)]\<rparr>)"
proof -
  have l: "VirtualServices_List e cl = Inr (virtualServices cl)"
    using h by (simp add: VirtualServices_List_def healthy_def)
  have m: "marshalErr e = None" and p: "virtualServicesPatchErr e = None"
    and c: "virtualServicesCreateErr e = None"
    using h by (simp_all add: healthy_def)
  have n: "vs_Name (baseVirtualService originSvcName) = previewVirtualServiceName originSvcName"
    and ns: "vs_Namespace (baseVirtualService originSvcName) = istioNamespace"
    by (simp_all add: baseVirtualService_def Let_def)
  have o: "obtainBaseResource e cl (virtualServices cl) originSvcName
             = (Inr (baseVirtualService originSvcName),
                cl\<lparr>virtualServices := virtualServices cl @ [baseVirtualService originSvcName]\<rparr>)"
    using free
    by (simp add: obtainBaseResource_def findBaseResource_None [OF none]
        VirtualServices_Create_def c n)
  have r: "map (\<lambda>vs. if sameObject istioNamespace (previewVirtualServiceName originSvcName) vs
                     then d else vs) (virtualServices cl) = virtualServices cl" for d
    using replaceObject_absent [OF free] by (simp add: replaceObject_def)
  show ?thesis
    by (simp add: createSidecarVirtualService_def healthy_istio [OF h] l o m p
        VirtualServices_Patch_def sameObject_def [of _ _ "composeRoutes _ _ _"]
        sameObject_def [of _ _ "baseVirtualService _"] n ns r)
qed

lemma mset_composeRoutes:
  "mset (vs_Http (composeRoutes e base route)) = mset (vs_Http base) + {#route#}"
  by (simp add: composeRoutes_def mset_sort_Slice)

lemma previewFirst_composeRoutes:
  "length (vs_Http base) < 12 \<Longrightarrow> previewFirst (vs_Http (composeRoutes e base route))"
  by (simp add: composeRoutes_def sort_Slice_medium)

lemma vs_Http_composeRoutes:
  "length (vs_Http base) < 6 \<Longrightarrow>
   vs_Http (composeRoutes e base route)
     = rev (filter isPreview (vs_Http base @ [route]))
       @ filter (\<lambda>r. \<not> isPreview r) (vs_Http base @ [route])"
  by (simp add: composeRoutes_def sort_Slice_short)


lemma candidate_checkoutRoutes: "candidate (svcHost ''checkout'') (checkoutRoutes versions)"
  by (simp add: candidate_def checkoutRoutes_def baseVirtualService_def Let_def)

lemma findBaseResource_routedCluster:
  "findBaseResource (svcHost ''checkout'') (virtualServices (routedCluster versions))
     = Some (checkoutRoutes versions)"
  using findBaseResource_snoc [OF candidate_checkoutRoutes, where items = "[]"]
  by (simp add: routedCluster_def)

lemma vs_Namespace_checkoutRoutes: "vs_Namespace (checkoutRoutes versions) = istioNamespace"
  by (simp add: checkoutRoutes_def baseVirtualService_def Let_def)


lemma isPreview_previewRoute [simp]: "isPreview (previewRoute originSvcName version)"
  by (simp add: isPreview_def previewRoute_def previewName_def Let_def)

text \<open>The default route carries the prefix exactly when the origin's name does.\<close>

lemma HasPrefix_svcHost:
  "HasPrefix (svcHost originSvcName) previewPrefixName = HasPrefix originSvcName previewPrefixName"
proof (cases originSvcName)
  case Nil
  then show ?thesis
    by (simp add: HasPrefix_def svcHost_def previewPrefixName_def)
next
  case (Cons c cs)
  then show ?thesis
    by (cases cs) (simp_all add: HasPrefix_def svcHost_def previewPrefixName_def)
qed

lemma isPreview_defaultRoute:
  "isPreview (defaultRoute originSvcName) = HasPrefix originSvcName previewPrefixName"
  by (simp add: isPreview_def defaultRoute_def HasPrefix_svcHost)

lemma vs_Http_baseVirtualService:
  "vs_Http (baseVirtualService originSvcName) = [defaultRoute originSvcName]"
  by (simp add: baseVirtualService_def defaultRoute_def Let_def)

lemma composeRoutes_base:
  "\<not> HasPrefix originSvcName previewPrefixName \<Longrightarrow>
   composeRoutes e (baseVirtualService originSvcName) (previewRoute originSvcName version)
     = (baseVirtualService originSvcName)
         \<lparr>vs_Http := [previewRoute originSvcName version, defaultRoute originSvcName]\<rparr>"
  by (simp add: composeRoutes_def sort_Slice_short vs_Http_baseVirtualService
      isPreview_defaultRoute) (simp add: baseVirtualService_def Let_def)

lemma composeRoutes_second:
  "\<not> HasPrefix originSvcName previewPrefixName \<Longrightarrow>
   composeRoutes e
       ((baseVirtualService originSvcName)
          \<lparr>vs_Http := [previewRoute originSvcName v1, defaultRoute originSvcName]\<rparr>)
       (previewRoute originSvcName v2)
     = (baseVirtualService originSvcName)
         \<lparr>vs_Http := [previewRoute originSvcName v2, previewRoute originSvcName v1,
                      defaultRoute originSvcName]\<rparr>"
  by (simp add: composeRoutes_def sort_Slice_short isPreview_defaultRoute)
     (simp add: baseVirtualService_def Let_def)

text \<open>Two versions in a row, on a cluster without a routing object of the origin.\<close>

lemma composeTwice_fresh:
  assumes h: "healthy e"
    and none: "\<not> list_ex (candidate (svcHost originSvcName)) (virtualServices cl)"
    and free: "\<not> list_ex (sameObject istioNamespace (previewVirtualServiceName originSvcName))
                   (virtualServices cl)"
    and np: "\<not> HasPrefix originSvcName previewPrefixName"
  shows "composeTwice e cl originSvcName v1 v2
           = (Inr (), cl\<lparr>virtualServices := virtualServices cl @
                [(baseVirtualService originSvcName)
                   \<lparr>vs_Http := [previewRoute originSvcName v2, previewRoute originSvcName v1,
                                defaultRoute originSvcName]\<rparr>]\<rparr>)"
proof -
  let ?doc1 = "(baseVirtualService originSvcName)
                 \<lparr>vs_Http := [previewRoute originSvcName v1, defaultRoute originSvcName]\<rparr>"
  let ?cl1 = "cl\<lparr>virtualServices := virtualServices cl @ [?doc1]\<rparr>"
  have first: "createSidecarVirtualService e cl originSvcName v1 = (Inr (), ?cl1)"
    using createSidecar_fresh [OF h none free, of v1] by (simp add: composeRoutes_base [OF np])
  have cand: "candidate (svcHost originSvcName) ?doc1"
    by (simp add: candidate_def baseVirtualService_def Let_def)
  have found: "findBaseResource (svcHost originSvcName) (virtualServices ?cl1) = Some ?doc1"
    using findBaseResource_snoc [OF cand] by simp
  have ns: "vs_Namespace ?doc1 = istioNamespace"
    and nm: "vs_Name ?doc1 = previewVirtualServiceName originSvcName"
    by (simp_all add: baseVirtualService_def Let_def)
  have same: "sameObject istioNamespace (previewVirtualServiceName originSvcName) ?doc1"
    by (simp add: sameObject_def ns nm)
  have second: "createSidecarVirtualService e ?cl1 originSvcName v2
                  = (Inr (), ?cl1\<lparr>virtualServices :=
                       replaceObject (vs_Name ?doc1)
                         (composeRoutes e ?doc1 (previewRoute originSvcName v2))
                         (virtualServices ?cl1)\<rparr>)"
    by (rule createSidecar_existing [OF h found ns])
  have rep: "replaceObject (previewVirtualServiceName originSvcName) d (virtualServices cl @ [?doc1])
               = virtualServices cl @ [d]" for d
    using replaceObject_absent [OF free, of d] same by (simp add: replaceObject_def)
  show ?thesis
    unfolding composeTwice_def first
    using second by (simp add: nm rep composeRoutes_second [OF np])
qed

text \<open>
  C1, as the code has it. After the append, while the sequence has at most 12 routes
  (the range in which the library ends by an insertion sort), every route whose name
  starts with the reserved prefix stands before every route whose name does not. While it
  has at most 6 routes (the insertion sort alone), the routes with the prefix come first
  in the reverse of the order they had after the append (so the appended route is the
  first), and the routes without it follow in the order they had. In particular, in an
  environment where no call is refused, on a cluster without a routing object of the
  origin, and for an origin whose name does not start with the reserved prefix, composing
  \<open>v1\<close> and then \<open>v2\<close> leaves one routing object whose routes are the preview route of
  \<open>v2\<close>, the preview route of \<open>v1\<close> and the default route, in that order.
\<close>

theorem preview_routes_first:
  "(length (vs_Http base) < 12 \<longrightarrow> previewFirst (vs_Http (composeRoutes e base route)))
   \<and> (length (vs_Http base) < 6
      \<longrightarrow> vs_Http (composeRoutes e base route)
            = rev (filter isPreview (vs_Http base @ [route]))
              @ filter (\<lambda>r. \<not> isPreview r) (vs_Http base @ [route]))
   \<and> (healthy e
      \<and> \<not> list_ex (candidate (svcHost originSvcName)) (virtualServices cl)
      \<and> \<not> list_ex (sameObject istioNamespace (previewVirtualServiceName originSvcName))
            (virtualServices cl)
      \<and> \<not> HasPrefix originSvcName previewPrefixName
      \<longrightarrow> composeTwice e cl originSvcName v1 v2
            = (Inr (), cl\<lparr>virtualServices := virtualServices cl @
                 [(baseVirtualService originSvcName)
                    \<lparr>vs_Http := [previewRoute originSvcName v2, previewRoute originSvcName v1,
                                 defaultRoute originSvcName]\<rparr>]\<rparr>))"
  using vs_Http_composeRoutes [of base e route] previewFirst_composeRoutes [of base e route]
    composeTwice_fresh [of e originSvcName cl v1 v2]
  by blast

theorem preview_routes_first_witness:
  "length (vs_Http (checkoutRoutes [''1''])) < 12
   \<and> previewFirst (vs_Http (composeRoutes localEnv (checkoutRoutes [''1''])
                      (previewRoute ''checkout'' ''2'')))
   \<and> length (vs_Http (checkoutRoutes [''1''])) < 6
   \<and> vs_Http (composeRoutes localEnv (checkoutRoutes [''1'']) (previewRoute ''checkout'' ''2''))
       = rev (filter isPreview (vs_Http (checkoutRoutes [''1'']) @ [previewRoute ''checkout'' ''2'']))
         @ filter (\<lambda>r. \<not> isPreview r)
             (vs_Http (checkoutRoutes [''1'']) @ [previewRoute ''checkout'' ''2''])
   \<and> healthy localEnv
   \<and> \<not> list_ex (candidate (svcHost ''checkout'')) (virtualServices checkoutCluster)
   \<and> \<not> list_ex (sameObject istioNamespace (previewVirtualServiceName ''checkout''))
         (virtualServices checkoutCluster)
   \<and> \<not> HasPrefix ''checkout'' previewPrefixName
   \<and> composeTwice localEnv checkoutCluster ''checkout'' ''1'' ''2''
       = (Inr (), checkoutCluster\<lparr>virtualServices := virtualServices checkoutCluster @
            [(baseVirtualService ''checkout'')
               \<lparr>vs_Http := [previewRoute ''checkout'' ''2'', previewRoute ''checkout'' ''1'',
                            defaultRoute ''checkout'']\<rparr>]\<rparr>)"
proof -
  have l: "length (vs_Http (checkoutRoutes [''1''])) < 12"
    and l': "length (vs_Http (checkoutRoutes [''1''])) < 6"
    by (simp_all add: checkoutRoutes_def)
  have c: "\<not> list_ex (candidate (svcHost ''checkout'')) (virtualServices checkoutCluster)"
    by (simp add: checkoutCluster_def)
  have f: "\<not> list_ex (sameObject istioNamespace (previewVirtualServiceName ''checkout''))
         (virtualServices checkoutCluster)"
    by (simp add: checkoutCluster_def)
  have p: "\<not> HasPrefix ''checkout'' previewPrefixName"
    by (simp add: HasPrefix_def previewPrefixName_def)
  show ?thesis
    using preview_routes_first [of "checkoutRoutes [''1'']" localEnv
        "previewRoute ''checkout'' ''2''" "''checkout''" checkoutCluster "''1''" "''2''"]
      l l' c f p healthy_localEnv
    by blast
qed

text \<open>
  C1 as stated fails. Composing version \<^verbatim>\<open>1\<close> and then version \<^verbatim>\<open>2\<close> for
  \<^verbatim>\<open>checkout\<close> on a cluster without routing objects puts the route of version \<^verbatim>\<open>2\<close>
  before the route of version \<^verbatim>\<open>1\<close>; and the second run's sequence is not the stable
  partition of the sequence it sorted.
\<close>

theorem stable_partition_counterexample:
  "composeTwice localEnv checkoutCluster ''checkout'' ''1'' ''2''
     = (Inr (), routedCluster [''2'', ''1''])
   \<and> vs_Http (checkoutRoutes [''2'', ''1''])
       = [previewRoute ''checkout'' ''2'', previewRoute ''checkout'' ''1'',
          defaultRoute ''checkout'']
   \<and> previewRoute ''checkout'' ''2'' \<noteq> previewRoute ''checkout'' ''1''
   \<and> vs_Http (composeRoutes localEnv (checkoutRoutes [''1'']) (previewRoute ''checkout'' ''2''))
       \<noteq> filter isPreview (vs_Http (checkoutRoutes [''1'']) @ [previewRoute ''checkout'' ''2''])
         @ filter (\<lambda>r. \<not> isPreview r)
             (vs_Http (checkoutRoutes [''1'']) @ [previewRoute ''checkout'' ''2''])"
  by code_simp

text \<open>
  An origin whose name starts with the reserved prefix: its default route passes the
  test of the comparison too, and after two versions it stands before the route of the
  first.
\<close>

lemma reserved_prefix_origin:
  "map (map rt_Name \<circ> vs_Http)
     (virtualServices (snd (composeTwice localEnv checkoutCluster ''products'' ''1'' ''2'')))
   = [[''pr2-products.default.svc.cluster.local'', ''products.default.svc.cluster.local'',
       ''pr1-products.default.svc.cluster.local'']]"
  by code_simp

text \<open>
  C7, as the code has it. In an environment where no call is refused, when the shared
  routing object is found in the namespace the run patches and holds the route of the
  version already, a new run for that version succeeds and puts in its place a document
  in which every route it had is present as often as before, with one more copy of the
  version's route; every other stored object stays as it was. While the object had fewer
  than 12 routes, the routes whose name starts with the reserved prefix stand before all
  the others. While it had fewer than 6, the routes whose name does not start with the
  prefix keep their relative order, and the routes whose name starts with it come out in
  the reverse of their order, behind the new copy.
\<close>

theorem rerun_keeps_routes:
  assumes "healthy e"
    and "findBaseResource (svcHost originSvcName) (virtualServices cl) = Some base"
    and "vs_Namespace base = istioNamespace"
    and "previewRoute originSvcName version \<in> set (vs_Http base)"
  shows "createSidecarVirtualService e cl originSvcName version
           = (Inr (), cl\<lparr>virtualServices :=
                replaceObject (vs_Name base)
                  (composeRoutes e base (previewRoute originSvcName version))
                  (virtualServices cl)\<rparr>)
         \<and> mset (vs_Http (composeRoutes e base (previewRoute originSvcName version)))
             = mset (vs_Http base) + {#previewRoute originSvcName version#}
         \<and> (length (vs_Http base) < 12
            \<longrightarrow> previewFirst (vs_Http (composeRoutes e base (previewRoute originSvcName version))))
         \<and> (length (vs_Http base) < 6
            \<longrightarrow> filter (\<lambda>r. \<not> isPreview r)
                  (vs_Http (composeRoutes e base (previewRoute originSvcName version)))
                = filter (\<lambda>r. \<not> isPreview r) (vs_Http base)
              \<and> filter isPreview
                  (vs_Http (composeRoutes e base (previewRoute originSvcName version)))
                = previewRoute originSvcName version # rev (filter isPreview (vs_Http base)))"
proof (intro conjI impI)
  show "createSidecarVirtualService e cl originSvcName version
           = (Inr (), cl\<lparr>virtualServices :=
                replaceObject (vs_Name base)
                  (composeRoutes e base (previewRoute originSvcName version))
                  (virtualServices cl)\<rparr>)"
    by (rule createSidecar_existing [OF assms(1,2,3)])
  show "mset (vs_Http (composeRoutes e base (previewRoute originSvcName version)))
             = mset (vs_Http base) + {#previewRoute originSvcName version#}"
    by (rule mset_composeRoutes)
next
  assume "length (vs_Http base) < 12"
  then show "previewFirst (vs_Http (composeRoutes e base (previewRoute originSvcName version)))"
    by (rule previewFirst_composeRoutes)
next
  assume l: "length (vs_Http base) < 6"
  show "filter (\<lambda>r. \<not> isPreview r)
               (vs_Http (composeRoutes e base (previewRoute originSvcName version)))
             = filter (\<lambda>r. \<not> isPreview r) (vs_Http base)"
    by (simp add: vs_Http_composeRoutes [OF l] rev_filter [symmetric])
  show "filter isPreview
               (vs_Http (composeRoutes e base (previewRoute originSvcName version)))
             = previewRoute originSvcName version # rev (filter isPreview (vs_Http base))"
    by (simp add: vs_Http_composeRoutes [OF l] rev_filter [symmetric])
qed

theorem rerun_keeps_routes_witness:
  "healthy localEnv
   \<and> findBaseResource (svcHost ''checkout'') (virtualServices (routedCluster [''3'', ''1'', ''2'']))
       = Some (checkoutRoutes [''3'', ''1'', ''2''])
   \<and> vs_Namespace (checkoutRoutes [''3'', ''1'', ''2'']) = istioNamespace
   \<and> previewRoute ''checkout'' ''1'' \<in> set (vs_Http (checkoutRoutes [''3'', ''1'', ''2'']))
   \<and> length (vs_Http (checkoutRoutes [''3'', ''1'', ''2''])) < 12
   \<and> length (vs_Http (checkoutRoutes [''3'', ''1'', ''2''])) < 6
   \<and> createSidecarVirtualService localEnv (routedCluster [''3'', ''1'', ''2'']) ''checkout'' ''1''
       = (Inr (), (routedCluster [''3'', ''1'', ''2''])\<lparr>virtualServices :=
            replaceObject (vs_Name (checkoutRoutes [''3'', ''1'', ''2'']))
              (composeRoutes localEnv (checkoutRoutes [''3'', ''1'', ''2''])
                 (previewRoute ''checkout'' ''1''))
              (virtualServices (routedCluster [''3'', ''1'', ''2'']))\<rparr>)
   \<and> previewFirst (vs_Http (composeRoutes localEnv (checkoutRoutes [''3'', ''1'', ''2''])
                      (previewRoute ''checkout'' ''1'')))
   \<and> filter (\<lambda>r. \<not> isPreview r)
         (vs_Http (composeRoutes localEnv (checkoutRoutes [''3'', ''1'', ''2''])
            (previewRoute ''checkout'' ''1'')))
       = filter (\<lambda>r. \<not> isPreview r) (vs_Http (checkoutRoutes [''3'', ''1'', ''2'']))
   \<and> filter isPreview
         (vs_Http (composeRoutes localEnv (checkoutRoutes [''3'', ''1'', ''2''])
            (previewRoute ''checkout'' ''1'')))
       = previewRoute ''checkout'' ''1''
         # rev (filter isPreview (vs_Http (checkoutRoutes [''3'', ''1'', ''2''])))"
proof -
  have m: "previewRoute ''checkout'' ''1'' \<in> set (vs_Http (checkoutRoutes [''3'', ''1'', ''2'']))"
    by (simp add: checkoutRoutes_def)
  have l: "length (vs_Http (checkoutRoutes [''3'', ''1'', ''2''])) < 12"
    and l': "length (vs_Http (checkoutRoutes [''3'', ''1'', ''2''])) < 6"
    by (simp_all add: checkoutRoutes_def)
  show ?thesis
    using rerun_keeps_routes [OF healthy_localEnv findBaseResource_routedCluster
        vs_Namespace_checkoutRoutes m]
      healthy_localEnv findBaseResource_routedCluster [of "[''3'', ''1'', ''2'']"]
      vs_Namespace_checkoutRoutes [of "[''3'', ''1'', ''2'']"] m l l'
    by blast
qed

text \<open>
  C7 as stated fails. The routing object of \<^verbatim>\<open>checkout\<close> with the preview routes of
  versions \<^verbatim>\<open>3\<close>, \<^verbatim>\<open>1\<close>, \<^verbatim>\<open>2\<close> and the default route is what composing versions
  \<^verbatim>\<open>1\<close>, \<^verbatim>\<open>2\<close>, \<^verbatim>\<open>3\<close> leaves. A new run for version \<^verbatim>\<open>1\<close> keeps all routes, and
  the routes of versions \<^verbatim>\<open>3\<close> and \<^verbatim>\<open>2\<close>, which are not the run's own, change places.
\<close>

theorem rerun_reorders_counterexample:
  "createSidecarVirtualService localEnv (routedCluster [''3'', ''1'', ''2'']) ''checkout'' ''1''
     = (Inr (), routedCluster [''1'', ''2'', ''1'', ''3''])
   \<and> previewRoute ''checkout'' ''1'' \<in> set (vs_Http (checkoutRoutes [''3'', ''1'', ''2'']))
   \<and> filter (\<lambda>r. r \<noteq> previewRoute ''checkout'' ''1'')
        (vs_Http (checkoutRoutes [''3'', ''1'', ''2'']))
       = [previewRoute ''checkout'' ''3'', previewRoute ''checkout'' ''2'',
          defaultRoute ''checkout'']
   \<and> filter (\<lambda>r. r \<noteq> previewRoute ''checkout'' ''1'')
        (vs_Http (checkoutRoutes [''1'', ''2'', ''1'', ''3'']))
       = [previewRoute ''checkout'' ''2'', previewRoute ''checkout'' ''3'',
          defaultRoute ''checkout'']"
  by code_simp

lemma three_previews_reachable:
  "composeTwice localEnv checkoutCluster ''checkout'' ''1'' ''2''
     = (Inr (), routedCluster [''2'', ''1''])
   \<and> createSidecarVirtualService localEnv (routedCluster [''2'', ''1'']) ''checkout'' ''3''
     = (Inr (), routedCluster [''3'', ''1'', ''2''])"
  by code_simp

end
